theory Spec2Isabelle
  imports Complex_Main "HOL-Library.Product_Lexorder"
begin

section \<open>Values, columns and errors\<close>

text \<open>
  A float64 value of a column is either NaN or a finite number. Finite numbers are read
  as reals and arithmetic on them is exact; infinities are left out. Comparisons with NaN
  are false, as in numpy.
\<close>

datatype fl = NaN | Fin real

text \<open>
  Column names. The repository uses Japanese names; each constructor stands for one of
  them: EmployeeID (shain ID), Date (hizuke), HoursWorked (kinmu jikan h), OvertimeHours
  (zangyou jikan h), Age (nenrei), Tenure (kinzoku nensuu), AvgOvertime (heikin zangyou
  jikan h), PTORate (yuukyuu shutoku ritsu), Rating15 (hyouka(1-5)), Rating (hyouka),
  Raises (shoukyuu kaisuu), Transfers (busho idou kaisuu), Attrition (attrition).
  \<open>Other\<close> carries any other name.
\<close>

datatype column =
  EmployeeID | Date | HoursWorked | OvertimeHours
  | Age | Tenure | AvgOvertime | PTORate | Rating15 | Rating | Raises | Transfers
  | Attrition | Other string

datatype error =
  MissingColumns "column list"
  | BinsNotIncreasing
  | DivideByZero
  | LibraryError

definition fl_gt :: "fl \<Rightarrow> real \<Rightarrow> bool" where
  "fl_gt x t = (case x of NaN \<Rightarrow> False | Fin v \<Rightarrow> v > t)"

definition fl_ge :: "fl \<Rightarrow> real \<Rightarrow> bool" where
  "fl_ge x t = (case x of NaN \<Rightarrow> False | Fin v \<Rightarrow> v \<ge> t)"

definition fl_lt :: "fl \<Rightarrow> real \<Rightarrow> bool" where
  "fl_lt x t = (case x of NaN \<Rightarrow> False | Fin v \<Rightarrow> v < t)"

definition fl_sub :: "fl \<Rightarrow> fl \<Rightarrow> fl" where
  "fl_sub x y = (case (x, y) of (Fin a, Fin b) \<Rightarrow> Fin (a - b) | _ \<Rightarrow> NaN)"

text \<open>
  Division of floats. numpy does not raise on a zero divisor (it yields an infinity or NaN
  with a warning); the model marks that event as \<open>DivideByZero\<close> so that its absence
  can be stated.
\<close>

definition fl_div :: "fl \<Rightarrow> fl \<Rightarrow> error + fl" where
  "fl_div x y =
     (if y = Fin 0 then Inl DivideByZero
      else case (x, y) of (Fin a, Fin b) \<Rightarrow> Inr (Fin (a / b)) | _ \<Rightarrow> Inr NaN)"

fun collect :: "(error + 'a) list \<Rightarrow> error + 'a list" where
  "collect [] = Inr []"
| "collect (r # rs) =
     (case r of
        Inl e \<Rightarrow> Inl e
      | Inr v \<Rightarrow> (case collect rs of Inl e \<Rightarrow> Inl e | Inr vs \<Rightarrow> Inr (v # vs)))"

section \<open>Risk tiers\<close>

datatype tier = Low | Medium | High

text \<open>
  \<open>pd.cut(x, bins=[b0, b1, b2, b3], labels=["Low","Medium","High"])\<close> with the
  default \<open>right=True\<close>: the bins are the right-closed intervals (b0, b1], (b1, b2],
  (b2, b3]; a value outside them, or NaN, gets no label; bin edges that do not strictly
  increase raise ValueError.
\<close>

definition cut_label :: "real \<Rightarrow> real \<Rightarrow> real \<Rightarrow> real \<Rightarrow> fl \<Rightarrow> tier option" where
  "cut_label b0 b1 b2 b3 x =
     (case x of
        NaN \<Rightarrow> None
      | Fin v \<Rightarrow>
          if b0 < v \<and> v \<le> b1 then Some Low
          else if b1 < v \<and> v \<le> b2 then Some Medium
          else if b2 < v \<and> v \<le> b3 then Some High
          else None)"

definition pd_cut :: "real \<Rightarrow> real \<Rightarrow> real \<Rightarrow> real \<Rightarrow> fl list \<Rightarrow> error + tier option list" where
  "pd_cut b0 b1 b2 b3 xs =
     (if b0 < b1 \<and> b1 < b2 \<and> b2 < b3 then Inr (map (cut_label b0 b1 b2 b3) xs)
      else Inl BinsNotIncreasing)"

text \<open>The fixed bins of \<open>predict_attrition\<close> (risk_model.py, lines 103-105).\<close>

definition default_tiers :: "fl list \<Rightarrow> error + tier option list" where
  "default_tiers probs = pd_cut (- (1 / 10)) 40 70 100 probs"

text \<open>
  The re-bucketing pass of app.py (lines 219-225): the two slider values are read as
  integers, a medium threshold at or above the high one is replaced by high - 1, and the
  probabilities are cut again.
\<close>

definition effective_thresholds :: "int \<Rightarrow> int \<Rightarrow> int \<times> int" where
  "effective_thresholds attr_med_thr attr_high_thr =
     (let high = attr_high_thr;
          med = attr_med_thr;
          med = (if med \<ge> high then high - 1 else med)
      in (med, high))"

definition rebucket :: "int \<Rightarrow> int \<Rightarrow> fl list \<Rightarrow> error + tier option list" where
  "rebucket attr_med_thr attr_high_thr probs =
     (case effective_thresholds attr_med_thr attr_high_thr of
        (med, high) \<Rightarrow> pd_cut (- (1 / 10)) (of_int med) (of_int high) 100 probs)"

text \<open>
  The KPI counters of app.py (lines 243-244), computed from the same probabilities and
  thresholds right after the re-bucketing.
\<close>

definition high_cnt :: "int \<Rightarrow> fl list \<Rightarrow> nat" where
  "high_cnt high probs =
     length (filter (\<lambda>p. case p of NaN \<Rightarrow> False | Fin v \<Rightarrow> v \<ge> of_int high) probs)"

definition med_cnt :: "int \<Rightarrow> int \<Rightarrow> fl list \<Rightarrow> nat" where
  "med_cnt med high probs =
     length (filter (\<lambda>p. case p of NaN \<Rightarrow> False
                          | Fin v \<Rightarrow> v \<ge> of_int med \<and> v < of_int high) probs)"

section \<open>Attendance anomaly detection\<close>

text \<open>\<open>ensure_columns\<close> (utils.py, lines 8-11).\<close>

definition ensure_columns :: "column list \<Rightarrow> column list \<Rightarrow> error + unit" where
  "ensure_columns df_columns required =
     (let missing = filter (\<lambda>c. c \<notin> set df_columns) required
      in if missing \<noteq> [] then Inl (MissingColumns missing) else Inr ())"

definition REQ :: "column list" where
  "REQ = [EmployeeID, Date, HoursWorked, OvertimeHours]"

text \<open>
  An attendance frame: the names of its columns and its rows. A row gives the employee
  identifier, the date as the timestamp \<open>pd.to_datetime\<close> yields (nanoseconds since the
  epoch), and the two hour columns as floats; a field of a column the frame lacks is never
  read. Failures of \<open>pd.to_datetime\<close> itself are outside the model.
\<close>

record 'a att_row =
  emp :: 'a
  date :: int
  hours :: fl
  overtime :: fl

record 'a att_frame =
  att_columns :: "column list"
  att_rows :: "'a att_row list"

record 'a anomaly =
  an_emp :: 'a
  an_date :: int
  an_hours :: fl
  an_overtime :: fl
  an_streak :: nat
  an_z :: bool
  an_long :: bool
  an_run :: bool

text \<open>\<open>Series.mean()\<close> and \<open>Series.std(ddof=0)\<close>: NaN entries are skipped; a series
  without a number has mean and deviation NaN.\<close>

definition numbers :: "fl list \<Rightarrow> real list" where
  "numbers xs = concat (map (\<lambda>x. case x of NaN \<Rightarrow> [] | Fin v \<Rightarrow> [v]) xs)"

definition mean :: "fl list \<Rightarrow> fl" where
  "mean xs =
     (let vs = numbers xs
      in if vs = [] then NaN else Fin (sum_list vs / real (length vs)))"

definition std0 :: "fl list \<Rightarrow> fl" where
  "std0 xs =
     (let vs = numbers xs
      in if vs = [] then NaN
         else let m = sum_list vs / real (length vs)
              in Fin (sqrt (sum_list (map (\<lambda>v. (v - m)\<^sup>2) vs) / real (length vs))))"

text \<open>\<open>z_anom\<close> (attendance_check.py, lines 27-33).\<close>

definition z_anom :: "real \<Rightarrow> fl list \<Rightarrow> error + bool list" where
  "z_anom z_thresh x =
     (let m = mean x;
          s = std0 x
      in if s = Fin 0 then Inr (replicate (length x) False)
         else case collect (map (\<lambda>v. fl_div (fl_sub v m) s) x) of
                Inl e \<Rightarrow> Inl e
              | Inr z \<Rightarrow> Inr (map (\<lambda>q. fl_gt q z_thresh) z))"


text \<open>\<open>Timedelta.days\<close>: the whole days of a difference of timestamps, rounded down.\<close>

definition ns_per_day :: int where
  "ns_per_day = 86400000000000"

definition days :: "int \<Rightarrow> int" where
  "days delta = delta div ns_per_day"

text \<open>\<open>longest_streak\<close> (attendance_check.py, lines 41-55): the loop over the zipped
  dates and hours, with the running counter and the previous date as its state.\<close>

definition streak_step :: "nat \<Rightarrow> int option \<Rightarrow> int \<Rightarrow> fl \<Rightarrow> nat" where
  "streak_step current prev dt h =
     (let worked = fl_gt h 0
      in if worked \<and> (case prev of None \<Rightarrow> True | Some p \<Rightarrow> days (dt - p) \<le> 1)
         then current + 1
         else if worked then 1
         else 0)"

fun streak_loop :: "nat \<Rightarrow> int option \<Rightarrow> (int \<times> fl) list \<Rightarrow> nat list" where
  "streak_loop current prev [] = []"
| "streak_loop current prev ((dt, h) # rest) =
     (let current' = streak_step current prev dt h
      in current' # streak_loop current' (Some dt) rest)"

definition longest_streak :: "int list \<Rightarrow> fl list \<Rightarrow> nat list" where
  "longest_streak dates hrs = streak_loop 0 None (zip dates hrs)"

text \<open>
  \<open>detect_attendance_anomalies\<close> (attendance_check.py, lines 11-64). The rows are sorted
  by employee and date; the z-score flag and the streak are computed per employee on the
  sorted rows; a row is kept when one of its three flags is set. The second component is
  the overview series behind the chart: the overtime summed per date.
\<close>

definition sort_rows :: "('a::linorder) att_row list \<Rightarrow> 'a att_row list" where
  "sort_rows rs = sort_key (\<lambda>r. (emp r, date r)) rs"

definition flag_group ::
  "real \<Rightarrow> real \<Rightarrow> int \<Rightarrow> 'a att_row list \<Rightarrow> error + 'a anomaly list" where
  "flag_group z_thresh long_hours_threshold streak_threshold g =
     (case z_anom z_thresh (map overtime g) of
        Inl e \<Rightarrow> Inl e
      | Inr zs \<Rightarrow>
          Inr (map (\<lambda>(r, zf, st).
                 \<lparr> an_emp = emp r, an_date = date r, an_hours = hours r,
                   an_overtime = overtime r, an_streak = st, an_z = zf,
                   an_long = fl_ge (hours r) long_hours_threshold,
                   an_run = (int st \<ge> streak_threshold) \<rparr>)
               (zip g (zip zs (longest_streak (map date g) (map hours g))))))"

definition overview :: "'a att_row list \<Rightarrow> (int \<times> real) list" where
  "overview rs =
     map (\<lambda>d. (d, sum_list (numbers (map overtime (filter (\<lambda>r. date r = d) rs)))))
       (sort (remdups (map date rs)))"

definition detect_attendance_anomalies ::
  "('a::linorder) att_frame \<Rightarrow> real \<Rightarrow> real \<Rightarrow> int
     \<Rightarrow> error + ('a anomaly list \<times> (int \<times> real) list)" where
  "detect_attendance_anomalies df z_thresh long_hours_threshold streak_threshold =
     (case ensure_columns (att_columns df) REQ of
        Inl e \<Rightarrow> Inl e
      | Inr _ \<Rightarrow>
          (let rs = sort_rows (att_rows df);
               fig = overview rs;
               groups = map (\<lambda>i. filter (\<lambda>r. emp r = i) rs) (remdups (map emp rs))
           in case collect (map (flag_group z_thresh long_hours_threshold streak_threshold)
                              groups) of
                Inl e \<Rightarrow> Inl e
              | Inr flagged \<Rightarrow>
                  Inr (sort_key (\<lambda>a. (an_emp a, an_date a))
                         (filter (\<lambda>a. an_z a \<or> an_long a \<or> an_run a) (concat flagged)),
                       fig)))"

section \<open>Frames of raw cells\<close>

text \<open>
  A cell of a frame read from a file is a float (NaN for a missing value) or a string.
  A frame is the list of its column names and its rows in positional order (the default
  index 0..n-1 that the file readers produce); a row maps a column name to its cell, and a
  cell of a column the frame does not have is never read.
\<close>

datatype cell = Num fl | Text string

record frame =
  columns :: "column list"
  recs :: "(column \<Rightarrow> cell) list"

definition column_values :: "frame \<Rightarrow> column \<Rightarrow> cell list" where
  "column_values df c = map (\<lambda>r. r c) (recs df)"

definition isna :: "cell \<Rightarrow> bool" where
  "isna c = (c = Num NaN)"

text \<open>
  \<open>pd.to_numeric(series, errors="coerce")\<close>: a number stays, a string is converted by
  the library's parser \<open>to_num\<close> (a parameter), which yields NaN for a string that is not
  a number.
\<close>

definition to_numeric :: "(string \<Rightarrow> fl) \<Rightarrow> cell \<Rightarrow> fl" where
  "to_numeric to_num c = (case c of Num x \<Rightarrow> x | Text s \<Rightarrow> to_num s)"

definition fillna :: "real \<Rightarrow> fl \<Rightarrow> real" where
  "fillna d x = (case x of NaN \<Rightarrow> d | Fin v \<Rightarrow> v)"

text \<open>\<open>Series.max()\<close> of a series without NaN; NaN for the empty series.\<close>

definition series_max :: "real list \<Rightarrow> fl" where
  "series_max vs = (case vs of [] \<Rightarrow> NaN | v # rest \<Rightarrow> Fin (fold max rest v))"

definition fl_le :: "fl \<Rightarrow> real \<Rightarrow> bool" where
  "fl_le x t = (case x of NaN \<Rightarrow> False | Fin v \<Rightarrow> v \<le> t)"

definition fl_times :: "fl \<Rightarrow> real \<Rightarrow> fl" where
  "fl_times x k = (case x of NaN \<Rightarrow> NaN | Fin v \<Rightarrow> Fin (v * k))"

definition rename_column :: "column \<Rightarrow> column \<Rightarrow> frame \<Rightarrow> frame" where
  "rename_column old new df =
     \<lparr> columns = map (\<lambda>c. if c = old then new else c) (columns df),
       recs = map (\<lambda>r. (\<lambda>c. if c = new then r old else r c)) (recs df) \<rparr>"

definition set_column :: "column \<Rightarrow> cell list \<Rightarrow> frame \<Rightarrow> frame" where
  "set_column c vals df =
     \<lparr> columns = (if c \<in> set (columns df) then columns df else columns df @ [c]),
       recs = map (\<lambda>(r, v). r(c := v)) (zip (recs df) vals) \<rparr>"

section \<open>Normalisation of HR columns\<close>

text \<open>\<open>normalize_hr_columns\<close> (utils.py, lines 220-241).\<close>

definition normalize_hr_columns :: "(string \<Rightarrow> fl) \<Rightarrow> frame \<Rightarrow> frame" where
  "normalize_hr_columns to_num df =
     (let df2 = df;
          df2 = (if Rating \<in> set (columns df2) \<and> Rating15 \<notin> set (columns df2)
                 then rename_column Rating Rating15 df2 else df2)
      in if PTORate \<in> set (columns df2) then
           (let ser_num = map (to_numeric to_num) (column_values df2 PTORate);
                ser_max_val = series_max (map (fillna (- 1)) ser_num)
            in if fl_ge ser_max_val 0 \<and> fl_le ser_max_val 1
               then set_column PTORate (map (\<lambda>x. Num (fl_times x 100)) ser_num) df2
               else set_column PTORate (map Num ser_num) df2)
         else df2)"

section \<open>Validation\<close>

datatype message =
  MissingRequired "column list"
  | NullsInRequired "(column \<times> nat) list"
  | DateParseFailures nat
  | OutOfRange column nat real real
  | AbnormalValues column nat
  | DuplicateIds

record report =
  errors :: "message list"
  warnings :: "message list"

text \<open>
  \<open>count_out_of_range\<close> (utils.py, lines 129-136 and 187-194). The coerced series is of
  dtype float64, so its comparisons with a bound are plain booleans (false on NaN) and the
  mask stays of dtype bool; \<open>fillna\<close> on such a series has nothing to fill.
\<close>

definition fillna_bool :: "bool \<Rightarrow> bool list \<Rightarrow> bool list" where
  "fillna_bool v series = series"

definition count_out_of_range ::
  "(string \<Rightarrow> fl) \<Rightarrow> cell list \<Rightarrow> real option \<Rightarrow> real option \<Rightarrow> nat" where
  "count_out_of_range to_num series min_v max_v =
     (let s = map (to_numeric to_num) series;
          mask = replicate (length s) False;
          mask = (case min_v of None \<Rightarrow> mask
                  | Some lo \<Rightarrow> map (\<lambda>(b, x). b \<or> fl_lt x lo) (zip mask s));
          mask = (case max_v of None \<Rightarrow> mask
                  | Some hi \<Rightarrow> map (\<lambda>(b, x). b \<or> fl_gt x hi) (zip mask s))
      in length (filter (\<lambda>b. b) (fillna_bool True mask)))"

definition null_counts :: "frame \<Rightarrow> column list \<Rightarrow> (column \<times> nat) list" where
  "null_counts df required =
     map (\<lambda>c. (c, length (filter isna (column_values df c)))) required"

definition HR_REQUIRED :: "column list" where
  "HR_REQUIRED = [EmployeeID, Age, Tenure, AvgOvertime, PTORate, Rating15, Raises, Transfers]"

definition ranges :: "(column \<times> real \<times> real) list" where
  "ranges = [(Age, 15, 80), (Tenure, 0, 50), (AvgOvertime, 0, 200), (PTORate, 0, 100),
             (Rating15, 1, 5), (Raises, 0, 50), (Transfers, 0, 50)]"

text \<open>\<open>validate_hr\<close> (utils.py, lines 106-156).\<close>

definition validate_hr :: "(string \<Rightarrow> fl) \<Rightarrow> frame \<Rightarrow> report" where
  "validate_hr to_num df =
     (let required = HR_REQUIRED;
          missing = filter (\<lambda>c. c \<notin> set (columns df)) required
      in if missing \<noteq> [] then \<lparr> errors = [MissingRequired missing], warnings = [] \<rparr>
         else
           (let bad_null = filter (\<lambda>(col, cnt). cnt > 0) (null_counts df required);
                errs = (if bad_null \<noteq> [] then [NullsInRequired bad_null] else []);
                warns = concat (map (\<lambda>(col, lo, hi).
                          (let n_bad = count_out_of_range to_num (column_values df col)
                                         (Some lo) (Some hi)
                           in if n_bad > 0 then [OutOfRange col n_bad lo hi] else []))
                        ranges);
                warns = warns @ (if \<not> distinct (column_values df EmployeeID)
                                 then [DuplicateIds] else [])
            in \<lparr> errors = errs, warnings = warns \<rparr>))"

text \<open>
  \<open>validate_attendance\<close> (utils.py, lines 159-203). \<open>to_dt\<close> stands for
  \<open>pd.to_datetime(..., errors="coerce")\<close> on one cell: the timestamp, or nothing (NaT).
\<close>

definition validate_attendance ::
  "(string \<Rightarrow> fl) \<Rightarrow> (cell \<Rightarrow> int option) \<Rightarrow> frame \<Rightarrow> report" where
  "validate_attendance to_num to_dt df =
     (let required = [EmployeeID, Date, HoursWorked, OvertimeHours];
          missing = filter (\<lambda>c. c \<notin> set (columns df)) required
      in if missing \<noteq> [] then \<lparr> errors = [MissingRequired missing], warnings = [] \<rparr>
         else
           (let bad_null = filter (\<lambda>(col, cnt). cnt > 0) (null_counts df required);
                errs = (if bad_null \<noteq> [] then [NullsInRequired bad_null] else []);
                dates = map to_dt (column_values df Date);
                nat_cnt = length (filter (\<lambda>d. d = None) dates);
                errs = errs @ (if nat_cnt > 0 then [DateParseFailures nat_cnt] else []);
                n_bad_work = count_out_of_range to_num (column_values df HoursWorked)
                               (Some 0) (Some (24 * 2));
                n_bad_ot = count_out_of_range to_num (column_values df OvertimeHours)
                             (Some 0) (Some 24);
                warns = (if n_bad_work > 0 then [AbnormalValues HoursWorked n_bad_work] else []);
                warns = warns @ (if n_bad_ot > 0 then [AbnormalValues OvertimeHours n_bad_ot]
                                 else [])
            in \<lparr> errors = errs, warnings = warns \<rparr>))"

section \<open>Attrition risk\<close>

definition PREFERRED_FEATURES :: "column list" where
  "PREFERRED_FEATURES = [Age, Tenure, AvgOvertime, PTORate, Rating15, Raises, Transfers]"

definition fl_map :: "(real \<Rightarrow> real) \<Rightarrow> fl \<Rightarrow> fl" where
  "fl_map f x = (case x of NaN \<Rightarrow> NaN | Fin v \<Rightarrow> Fin (f v))"

text \<open>\<open>sum\<close> of a list of floats: NaN as soon as one of them is NaN.\<close>

definition fl_sum :: "fl list \<Rightarrow> fl" where
  "fl_sum xs = (if NaN \<in> set xs then NaN else Fin (sum_list (numbers xs)))"

text \<open>
  The inner \<open>get\<close> of \<open>rule_based_score\<close> (risk_model.py, lines 34-39): the value of
  the column converted by \<open>float\<close>, or the default \<open>None\<close> when the row has no such
  column or the conversion raises. \<open>py_float\<close> stands for Python's \<open>float\<close> on a
  string: the number, or nothing when it raises ValueError.
\<close>

definition get :: "(string \<Rightarrow> fl option) \<Rightarrow> column list \<Rightarrow> (column \<Rightarrow> cell) \<Rightarrow> column \<Rightarrow> fl option" where
  "get py_float cols row col =
     (if col \<in> set cols
      then (case row col of Num x \<Rightarrow> Some x | Text s \<Rightarrow> py_float s)
      else None)"

text \<open>One \<open>if ... is not None: contributions.append(w * min(max(norm, 0), 1))\<close>; Python's
  \<open>min\<close> and \<open>max\<close> keep a NaN first argument.\<close>

definition contribution :: "fl option \<Rightarrow> real \<Rightarrow> (real \<Rightarrow> real) \<Rightarrow> fl list" where
  "contribution v w scaled =
     (case v of None \<Rightarrow> [] | Some x \<Rightarrow> [fl_map (\<lambda>a. w * min (max (scaled a) 0) 1) x])"

definition clip01 :: "fl \<Rightarrow> fl" where
  "clip01 x = fl_map (\<lambda>p. min (max p 0) 1) x"

text \<open>\<open>rule_based_score\<close> (risk_model.py, lines 23-65).\<close>

definition rule_based_score :: "(string \<Rightarrow> fl option) \<Rightarrow> column list \<Rightarrow> (column \<Rightarrow> cell) \<Rightarrow> fl" where
  "rule_based_score py_float cols row =
     (let contributions =
            contribution (get py_float cols row Tenure) (- (10 / 100)) (\<lambda>tenure. tenure / 10)
          @ contribution (get py_float cols row Age) (- (5 / 100)) (\<lambda>age. (age - 20) / 30)
          @ contribution (get py_float cols row AvgOvertime) (18 / 100) (\<lambda>ot. ot / 60)
          @ contribution (get py_float cols row PTORate) (- (20 / 100)) (\<lambda>pto. pto / 100)
          @ contribution (get py_float cols row Rating15) (- (25 / 100))
              (\<lambda>rating. (rating - 1) / 4)
          @ contribution (get py_float cols row Raises) (- (10 / 100)) (\<lambda>raises. raises / 5)
          @ contribution (get py_float cols row Transfers) (8 / 100) (\<lambda>moves. moves / 3);
          x = (if contributions \<noteq> [] then fl_sum contributions else Fin 0);
          prob = fl_map (\<lambda>x. 1 / (1 + exp (- (x * 3)))) x
      in clip01 prob)"

text \<open>\<open>np.round(x, 1)\<close>: the tenfold value rounded to the nearest integer, halves to the
  even one, divided by ten.\<close>

definition rint :: "real \<Rightarrow> int" where
  "rint x =
     (let f = \<lfloor>x\<rfloor>; d = x - of_int f
      in if d < 1 / 2 then f else if d > 1 / 2 then f + 1 else if even f then f else f + 1)"

definition np_round1 :: "fl \<Rightarrow> fl" where
  "np_round1 x = fl_map (\<lambda>v. of_int (rint (v * 10)) / 10) x"

record result_row =
  r_id :: cell
  r_prob :: fl
  r_tier :: "tier option"
  r_refs :: "cell list"

datatype model_name = RuleBased | LogReg nat

text \<open>
  \<open>result.merge(df[[id, *ref_cols]], on=id, how="left")\<close>: every row of the left table is
  paired, in the order of the left table, with each row of the right table that has the
  same identifier; a left row without a partner is kept once with missing reference
  values.
\<close>

definition merge_left :: "nat \<Rightarrow> result_row list \<Rightarrow> (cell \<times> cell list) list \<Rightarrow> result_row list" where
  "merge_left n_refs left right =
     concat (map (\<lambda>l.
        (let ms = filter (\<lambda>(k, refs). k = r_id l) right
         in if ms = [] then [l\<lparr> r_refs := replicate n_refs (Num NaN) \<rparr>]
            else map (\<lambda>(k, refs). l\<lparr> r_refs := refs \<rparr>) ms)) left)"

text \<open>\<open>sort_values(prob, ascending=False)\<close>: descending, rows without a probability
  last. Rows of equal probability are kept in their order here; pandas leaves their order
  open.\<close>

definition sort_desc :: "result_row list \<Rightarrow> result_row list" where
  "sort_desc rs =
     sort_key (\<lambda>r. - fillna 0 (r_prob r)) (filter (\<lambda>r. r_prob r \<noteq> NaN) rs)
     @ filter (\<lambda>r. r_prob r = NaN) rs"

text \<open>
  \<open>predict_attrition\<close> (risk_model.py, lines 67-111), in two parts. \<open>score\<close> is the
  choice of the model and the scoring (lines 70-92); \<open>logreg\<close> stands for the
  scikit-learn part of the labelled branch (label conversion, split, fit and
  \<open>predict_proba\<close> on the whole frame): from the feature matrix and the label column it
  yields one probability per row, or an error.
\<close>

definition score ::
  "(string \<Rightarrow> fl option) \<Rightarrow> (cell list list \<Rightarrow> cell list \<Rightarrow> error + fl list) \<Rightarrow> frame
     \<Rightarrow> error + (fl list \<times> model_name)" where
  "score py_float logreg df =
     (let has_label = Attrition \<in> set (columns df);
          feature_cols = filter (\<lambda>c. c \<in> set (columns df)) PREFERRED_FEATURES
      in if has_label \<and> length feature_cols > 0
         then (case logreg (map (\<lambda>r. map r feature_cols) (recs df))
                      (column_values df Attrition) of
                 Inl e \<Rightarrow> Inl e
               | Inr proba \<Rightarrow> Inr (proba, LogReg (length feature_cols)))
         else Inr (map (rule_based_score py_float (columns df)) (recs df), RuleBased))"

text \<open>
  \<open>result_ids\<close> is the identifier column, filled with 1..n when the frame has none
  (lines 94-96). \<open>assemble\<close> builds the result (lines 98-111): percentages rounded to one
  decimal, the tier of the fixed bins, the reference columns merged in on the identifier,
  the rows sorted by falling probability. The columns of the result are zipped by
  position, which is how frames with the default index align.
\<close>

definition result_ids :: "frame \<Rightarrow> cell list" where
  "result_ids df =
     (if EmployeeID \<notin> set (columns df)
      then map (\<lambda>i. Num (Fin (real i))) [1 ..< length (recs df) + 1]
      else column_values df EmployeeID)"

definition assemble :: "frame \<Rightarrow> fl list \<Rightarrow> error + result_row list" where
  "assemble df proba =
     (let ids = result_ids df;
          pct = map (\<lambda>p. np_round1 (fl_times p 100)) proba
      in case default_tiers pct of
           Inl e \<Rightarrow> Inl e
         | Inr tiers \<Rightarrow>
             (let result = map (\<lambda>(i, p, t).
                             \<lparr> r_id = i, r_prob = p, r_tier = t, r_refs = [] \<rparr>)
                           (zip ids (zip pct tiers));
                  ref_cols = filter (\<lambda>c. c \<in> set (columns df))
                               [Tenure, AvgOvertime, PTORate, Rating15];
                  result = (if ref_cols \<noteq> []
                            then merge_left (length ref_cols) result
                                   (zip ids (map (\<lambda>r. map r ref_cols) (recs df)))
                            else result)
              in Inr (sort_desc result)))"

definition predict_attrition ::
  "(string \<Rightarrow> fl option) \<Rightarrow> (cell list list \<Rightarrow> cell list \<Rightarrow> error + fl list) \<Rightarrow> frame
     \<Rightarrow> error + (result_row list \<times> model_name)" where
  "predict_attrition py_float logreg df =
     (case score py_float logreg df of
        Inl e \<Rightarrow> Inl e
      | Inr (proba, model) \<Rightarrow>
          (case assemble df proba of
             Inl e \<Rightarrow> Inl e
           | Inr result \<Rightarrow> Inr (result, model)))"

section \<open>Anonymisation\<close>

text \<open>\<open>os.getenv(name, default)\<close> on an environment.\<close>

definition getenv :: "(string \<rightharpoonup> string) \<Rightarrow> string \<Rightarrow> string \<Rightarrow> string" where
  "getenv env name dflt = (case env name of None \<Rightarrow> dflt | Some v \<Rightarrow> v)"

text \<open>
  \<open>anonymize_ids\<close> (utils.py, lines 206-217). Strings are the byte strings of their
  UTF-8 encoding. \<open>sha256_hex\<close> stands for \<open>hashlib.sha256(...).hexdigest()\<close> and
  \<open>str\<close> for Python's \<open>str\<close> on an identifier.
\<close>

definition anonymize_ids ::
  "(string \<Rightarrow> string) \<Rightarrow> ('a \<Rightarrow> string) \<Rightarrow> (string \<rightharpoonup> string) \<Rightarrow> 'a list \<Rightarrow> string \<Rightarrow> int
     \<Rightarrow> string list" where
  "anonymize_ids sha256_hex str env series prefix len =
     (let salt = getenv env ''ANON_SALT'' ''hrtool''
      in map (\<lambda>x. (let b = x; h = take (nat (max 4 len)) (sha256_hex (salt @ b))
                    in prefix @ h))
           (map str series))"

section \<open>Risk tiers: results\<close>

lemma cut_label_cases:
  assumes "b0 < v" "v \<le> b3" "b1 < b2"
  shows "cut_label b0 b1 b2 b3 (Fin v) =
           Some (if v \<le> b1 then Low else if v \<le> b2 then Medium else High)"
  using assms by (simp add: cut_label_def)

text \<open>
  C1: evaluation of the bucketing at the two boundary values. With the default bins a
  probability of exactly 40 is labelled Low and one of exactly 70 is labelled Medium; the
  re-bucketing pass with thresholds (40, 70) labels 70 as Medium as well, while the High
  counter computed beside it counts that row.
\<close>

theorem C1_boundary_in_lower_tier:
  "default_tiers [Fin 40, Fin 70] = Inr [Some Low, Some Medium]
   \<and> rebucket 40 70 [Fin 40, Fin 70] = Inr [Some Low, Some Medium]
   \<and> high_cnt 70 [Fin 40, Fin 70] = 1
   \<and> med_cnt 40 70 [Fin 40, Fin 70] = 1"
  by (simp add: default_tiers_def rebucket_def effective_thresholds_def pd_cut_def
        cut_label_def high_cnt_def med_cnt_def)

text \<open>
  C5: when the supplied medium threshold is at or above the supplied high threshold, the
  medium threshold used for the re-bucketing is high - 1, the thresholds used satisfy
  medium < high, and the cut is made with exactly these edges.
\<close>

theorem C5_medium_forced_below_high:
  assumes "attr_med_thr \<ge> attr_high_thr"
  shows "effective_thresholds attr_med_thr attr_high_thr = (attr_high_thr - 1, attr_high_thr)
         \<and> fst (effective_thresholds attr_med_thr attr_high_thr)
             < snd (effective_thresholds attr_med_thr attr_high_thr)
         \<and> rebucket attr_med_thr attr_high_thr probs
             = pd_cut (- (1 / 10)) (of_int (attr_high_thr - 1)) (of_int attr_high_thr) 100 probs"
  using assms by (simp add: effective_thresholds_def rebucket_def Let_def)

theorem C5_medium_forced_below_high_witness:
  "effective_thresholds 80 70 = (69, 70)
   \<and> rebucket 80 70 [Fin 69, Fin (139 / 2), Fin 71] = Inr [Some Low, Some Medium, Some High]"
  using C5_medium_forced_below_high [of 70 80 "[Fin 69, Fin (139 / 2), Fin 71]"]
  by (simp add: pd_cut_def cut_label_def)

section \<open>Attendance anomaly detection: results\<close>



lemma collect_all_Inr:
  "(\<And>r. r \<in> set rs \<Longrightarrow> \<exists>v. r = Inr v) \<Longrightarrow> \<exists>vs. collect rs = Inr vs \<and> map Inr vs = rs"
  by (induction rs) (auto split: sum.splits)






lemma numbers_Nil_iff: "numbers x = [] \<longleftrightarrow> (\<forall>v \<in> set x. v = NaN)"
  by (induction x) (auto simp: numbers_def split: fl.splits)



lemma std0_cases: "std0 x = NaN \<and> numbers x = [] \<or> (\<exists>s. std0 x = Fin s \<and> numbers x \<noteq> [])"
  by (simp add: std0_def Let_def)

lemma mean_cases: "mean x = NaN \<and> numbers x = [] \<or> (\<exists>m. mean x = Fin m \<and> numbers x \<noteq> [])"
  by (simp add: mean_def Let_def)



















text \<open>The example of the specification: five worked days, a day without work, four worked
  days, one day apart each.\<close>

lemma longest_streak_example:
  "longest_streak (map (\<lambda>k. k * ns_per_day) [0, 1, 2, 3, 4, 5, 6, 7, 8, 9])
     [Fin 8, Fin 8, Fin 8, Fin 8, Fin 8, Fin 0, Fin 8, Fin 8, Fin 8, Fin 8]
   = [1, 2, 3, 4, 5, 0, 1, 2, 3, 4]"
  by code_simp

text \<open>For dates without a time of day the gap is the difference in calendar days; rows of
  the same date (gap 0) continue the streak.\<close>

lemma days_of_dates: "days (a * ns_per_day - b * ns_per_day) = a - b"
proof -
  have "a * ns_per_day - b * ns_per_day = (a - b) * ns_per_day"
    by (simp only: left_diff_distrib)
  moreover have "ns_per_day \<noteq> 0"
    by (simp add: ns_per_day_def)
  ultimately show ?thesis
    by (simp add: days_def)
qed

lemma streak_step_same_day:
  "fl_gt h 0 \<Longrightarrow> streak_step c (Some d) d h = c + 1"
  by (simp add: streak_step_def days_def ns_per_day_def)

text \<open>
  C6: when the frame lacks one of the four required columns, the detection fails with the
  missing-columns error that lists exactly the required columns the frame lacks, in the
  order of the required list, and returns no result.
\<close>

theorem C6_missing_columns:
  assumes "\<exists>c \<in> set REQ. c \<notin> set (att_columns df)"
  shows "detect_attendance_anomalies df z l t
           = Inl (MissingColumns (filter (\<lambda>c. c \<notin> set (att_columns df)) REQ))
         \<and> set (filter (\<lambda>c. c \<notin> set (att_columns df)) REQ) = set REQ - set (att_columns df)
         \<and> (\<forall>out. detect_attendance_anomalies df z l t \<noteq> Inr out)"
proof -
  have "filter (\<lambda>c. c \<notin> set (att_columns df)) REQ \<noteq> []"
    using assms by (simp add: filter_empty_conv)
  then have "detect_attendance_anomalies df z l t
           = Inl (MissingColumns (filter (\<lambda>c. c \<notin> set (att_columns df)) REQ))"
    by (simp add: detect_attendance_anomalies_def ensure_columns_def Let_def)
  then show ?thesis by auto
qed

theorem C6_missing_columns_witness:
  "detect_attendance_anomalies
     \<lparr> att_columns = [EmployeeID, Date, HoursWorked],
       att_rows = [\<lparr> emp = 1::nat, date = 0, hours = Fin 8, overtime = NaN \<rparr>] \<rparr> 2 11 12
   = Inl (MissingColumns [OvertimeHours])"
  using C6_missing_columns [of "\<lparr> att_columns = [EmployeeID, Date, HoursWorked],
       att_rows = [\<lparr> emp = 1::nat, date = 0, hours = Fin 8, overtime = NaN \<rparr>] \<rparr>" 2 11 12]
  by (simp add: REQ_def)


section \<open>Normalisation of HR columns: results\<close>


lemma series_max_Max:
  assumes "vs \<noteq> []"
  shows "series_max vs = Fin (Max (set vs))"
proof (cases vs)
  case Nil
  with assms show ?thesis by simp
next
  case (Cons a list)
  have "fold max list a = Max (set (a # list))"
    by (rule Max.set_eq_fold [symmetric])
  then show ?thesis
    by (simp add: series_max_def Cons)
qed

lemma column_values_set_column:
  "length vals = length (recs df) \<Longrightarrow> column_values (set_column c vals df) c = vals"
  by (simp add: column_values_def set_column_def map_idI list_eq_iff_nth_eq)

lemma column_values_rename_other:
  "c \<noteq> new \<Longrightarrow> column_values (rename_column old new df) c = column_values df c"
  by (simp add: column_values_def rename_column_def)

lemma columns_rename_other:
  "c \<noteq> old \<Longrightarrow> c \<noteq> new \<Longrightarrow> c \<in> set (columns (rename_column old new df)) \<longleftrightarrow> c \<in> set (columns df)"
  by (auto simp: rename_column_def)

lemma length_recs_rename: "length (recs (rename_column old new df)) = length (recs df)"
  by (simp add: rename_column_def)

text \<open>
  C3 (as amended): when the frame has the paid-leave column, let m be the maximum of its
  coerced values with NaN counted as -1. If the column has a row and 0 \<le> m \<le> 1, every
  coerced value is multiplied by 100 (NaN stays NaN); otherwise, that is for m > 1, for
  m < 0 and for a column without rows, the coerced values are kept as they are.
\<close>

theorem C3_rescale_guarded:
  assumes "PTORate \<in> set (columns df)"
  shows "column_values (normalize_hr_columns to_num df) PTORate =
           (let ser_num = map (to_numeric to_num) (column_values df PTORate)
            in if ser_num \<noteq> [] \<and> 0 \<le> Max (set (map (fillna (- 1)) ser_num))
                  \<and> Max (set (map (fillna (- 1)) ser_num)) \<le> 1
               then map (\<lambda>x. Num (fl_times x 100)) ser_num
               else map Num ser_num)"
proof -
  define df2 where "df2 = (if Rating \<in> set (columns df) \<and> Rating15 \<notin> set (columns df)
                 then rename_column Rating Rating15 df else df)"
  have cv: "column_values df2 PTORate = column_values df PTORate"
    by (simp add: df2_def column_values_rename_other)
  have mem: "PTORate \<in> set (columns df2)"
    using assms by (simp add: df2_def columns_rename_other)
  have len: "length (column_values df PTORate) = length (recs df2)"
    by (simp add: df2_def column_values_def length_recs_rename)
  let ?ser = "map (to_numeric to_num) (column_values df PTORate)"
  have mx: "?ser \<noteq> [] \<Longrightarrow> series_max (map (fillna (- 1)) ?ser)
              = Fin (Max (set (map (fillna (- 1)) ?ser)))"
    by (intro series_max_Max) simp
  have mx0: "?ser = [] \<Longrightarrow> series_max (map (fillna (- 1)) ?ser) = NaN"
    by (simp add: series_max_def)
  have "normalize_hr_columns to_num df =
          (if fl_ge (series_max (map (fillna (- 1)) ?ser)) 0
              \<and> fl_le (series_max (map (fillna (- 1)) ?ser)) 1
           then set_column PTORate (map (\<lambda>x. Num (fl_times x 100)) ?ser) df2
           else set_column PTORate (map Num ?ser) df2)"
    using mem cv by (simp add: normalize_hr_columns_def Let_def df2_def [symmetric])
  then show ?thesis
    using len mx mx0
    by (cases "?ser = []")
       (simp_all add: Let_def column_values_set_column fl_ge_def fl_le_def
          del: set_map)
qed

theorem C3_rescale_guarded_witness:
  "PTORate \<in> set (columns \<lparr> columns = [EmployeeID, PTORate],
        recs = [\<lambda>c. if c = PTORate then Num (Fin (1 / 2)) else Num (Fin 1),
                \<lambda>c. if c = PTORate then Text ''n/a'' else Num (Fin 2)] \<rparr>)
   \<and> column_values (normalize_hr_columns (\<lambda>s. NaN)
        \<lparr> columns = [EmployeeID, PTORate],
          recs = [\<lambda>c. if c = PTORate then Num (Fin (1 / 2)) else Num (Fin 1),
                  \<lambda>c. if c = PTORate then Text ''n/a'' else Num (Fin 2)] \<rparr>) PTORate
     = [Num (Fin 50), Num NaN]"
  using C3_rescale_guarded [of "\<lparr> columns = [EmployeeID, PTORate],
        recs = [\<lambda>c. if c = PTORate then Num (Fin (1 / 2)) else Num (Fin 1),
                \<lambda>c. if c = PTORate then Text ''n/a'' else Num (Fin 2)] \<rparr>" "\<lambda>s. NaN"]
  by (simp add: column_values_def to_numeric_def fillna_def fl_times_def)

text \<open>
  C3 as stated fails on a column whose maximum is negative: the maximum - 1/2 is at most
  1.0, yet the value is not multiplied by 100.
\<close>

theorem C3_negative_maximum_counterexample:
  "series_max (map (fillna (- 1)) (map (to_numeric (\<lambda>s. NaN))
      (column_values \<lparr> columns = [PTORate], recs = [\<lambda>c. Num (Fin (- (1 / 2)))] \<rparr> PTORate)))
     = Fin (- (1 / 2))
   \<and> fl_le (Fin (- (1 / 2))) 1
   \<and> column_values (normalize_hr_columns (\<lambda>s. NaN)
        \<lparr> columns = [PTORate], recs = [\<lambda>c. Num (Fin (- (1 / 2)))] \<rparr>) PTORate
       = [Num (Fin (- (1 / 2)))]
   \<and> column_values (normalize_hr_columns (\<lambda>s. NaN)
        \<lparr> columns = [PTORate], recs = [\<lambda>c. Num (Fin (- (1 / 2)))] \<rparr>) PTORate
       \<noteq> [Num (fl_times (Fin (- (1 / 2))) 100)]"
  by (simp add: normalize_hr_columns_def column_values_def set_column_def Let_def
        to_numeric_def series_max_def fillna_def fl_ge_def fl_le_def fl_times_def)

section \<open>Validation: results\<close>

text \<open>What \<open>count_out_of_range\<close> counts: the rows whose coerced value is a number below
  the lower or above the upper bound. A row whose coerced value is NaN is not counted.\<close>

lemma count_out_of_range_eq:
  "count_out_of_range to_num series (Some lo) (Some hi) =
     length (filter (\<lambda>c. case to_numeric to_num c of NaN \<Rightarrow> False
                          | Fin v \<Rightarrow> v < lo \<or> v > hi) series)"
proof -
  have "map (\<lambda>(b, x). b \<or> fl_gt x hi)
          (zip (map (\<lambda>(b, x). b \<or> fl_lt x lo) (zip (replicate (length xs) False) xs)) xs)
        = map (\<lambda>x. fl_lt x lo \<or> fl_gt x hi) xs" for xs :: "fl list"
    by (induction xs) auto
  then have "count_out_of_range to_num series (Some lo) (Some hi) =
     length (filter (\<lambda>b. b) (map (\<lambda>x. fl_lt x lo \<or> fl_gt x hi) (map (to_numeric to_num) series)))"
    unfolding count_out_of_range_def Let_def fillna_bool_def
    by (simp only: option.case)
  also have "\<dots> = length (filter (\<lambda>c. case to_numeric to_num c of NaN \<Rightarrow> False
                          | Fin v \<Rightarrow> v < lo \<or> v > hi) series)"
    by (induction series) (auto simp: fl_lt_def fl_gt_def split: fl.splits)
  finally show ?thesis .
qed

text \<open>
  C10: evaluation at a series with a missing value, and at an HR frame whose only row has
  a missing age: the missing value is reported in the null error and is not counted in an
  out-of-range warning.
\<close>

theorem C10_nan_not_counted:
  "count_out_of_range to_num [Num NaN, Num (Fin 30)] (Some 15) (Some 80) = 0
   \<and> validate_hr to_num
        \<lparr> columns = HR_REQUIRED,
          recs = [\<lambda>c. if c = Age then Num NaN else Num (Fin 1)] \<rparr>
      = \<lparr> errors = [NullsInRequired [(Age, 1)]], warnings = [] \<rparr>"
  by (simp add: count_out_of_range_eq to_numeric_def validate_hr_def HR_REQUIRED_def
        null_counts_def column_values_def isna_def ranges_def Let_def)


end
